theory Spec2Isabelle
  imports Main "HOL-Library.List_Lexorder" "HOL-Library.Multiset"
begin

section \<open>Text: Python strings as lists of code points\<close>

text \<open>
  A Python \<open>str\<close> is a sequence of Unicode code points. A code point is modelled as a
  natural number and a string as the list of its code points, so that the line boundaries
  and the white space outside Latin-1 (U+2028, U+2029, U+3000, ...) are part of the model.
  String constants of the source are written as HOL literals and mapped to code points.
\<close>

type_synonym str = "nat list"

abbreviation py :: "string \<Rightarrow> str" where
  "py s \<equiv> map of_char s"

text \<open>The characters at which \<open>str.splitlines\<close> splits: LF, VT, FF, CR, FS, GS, RS, NEL,
  LINE SEPARATOR and PARAGRAPH SEPARATOR.\<close>

definition is_linebreak :: "nat \<Rightarrow> bool" where
  "is_linebreak c =
     ((10 \<le> c \<and> c \<le> 13) \<or> (28 \<le> c \<and> c \<le> 30) \<or> c = 133 \<or> c = 8232 \<or> c = 8233)"

text \<open>The characters that \<open>str.strip()\<close> removes (those for which \<open>str.isspace\<close> holds).\<close>

definition is_space :: "nat \<Rightarrow> bool" where
  "is_space c =
     ((9 \<le> c \<and> c \<le> 13) \<or> (28 \<le> c \<and> c \<le> 32) \<or> c = 133 \<or> c = 160 \<or> c = 5760
      \<or> (8192 \<le> c \<and> c \<le> 8202) \<or> c = 8232 \<or> c = 8233 \<or> c = 8239 \<or> c = 8287
      \<or> c = 12288)"

text \<open>After the end of a line, \<open>splitlines\<close> steps over the line boundary: two characters
  for CR LF, one character otherwise, none at the end of the text.\<close>

definition skip_linebreak :: "str \<Rightarrow> str" where
  "skip_linebreak rest =
     (case rest of
        [] \<Rightarrow> []
      | b # r \<Rightarrow> if b = 13 \<and> r \<noteq> [] \<and> hd r = 10 then tl r else r)"

text \<open>\<open>str.splitlines()\<close> without \<open>keepends\<close>: the empty text has no line, and a line
  boundary at the very end does not open a further line.\<close>

function splitlines :: "str \<Rightarrow> str list" where
  "splitlines [] = []"
| "splitlines (c # s) =
     takeWhile (\<lambda>x. \<not> is_linebreak x) (c # s)
       # splitlines (skip_linebreak (dropWhile (\<lambda>x. \<not> is_linebreak x) (c # s)))"
  by pat_completeness auto
termination
proof (relation "measure length")
  show "wf (measure length)" by simp
next
  fix c :: nat and s :: str
  let ?rest = "dropWhile (\<lambda>x. \<not> is_linebreak x) (c # s)"
  have "length ?rest \<le> length (c # s)"
    by (rule length_dropWhile_le)
  moreover have "length (skip_linebreak ?rest) \<le> length ?rest - 1"
    by (cases ?rest) (auto simp: skip_linebreak_def)
  moreover have "?rest = [] \<Longrightarrow> skip_linebreak ?rest = []"
    by (simp add: skip_linebreak_def)
  ultimately have "length (skip_linebreak ?rest) < length (c # s)"
    by (cases "?rest = []") (simp, simp)
  thus "(skip_linebreak ?rest, c # s) \<in> measure length"
    by simp
qed

text \<open>\<open>s.startswith(p)\<close>, \<open>sep.join(xs)\<close> and \<open>s.strip()\<close>.\<close>

definition startswith :: "str \<Rightarrow> str \<Rightarrow> bool" where
  "startswith s p = (take (length p) s = p)"

fun join :: "str \<Rightarrow> str list \<Rightarrow> str" where
  "join sep [] = []"
| "join sep [x] = x"
| "join sep (x # y # ys) = x @ sep @ join sep (y # ys)"

definition strip :: "str \<Rightarrow> str" where
  "strip s = rev (dropWhile is_space (rev (dropWhile is_space s)))"

section \<open>Documents: cells and notebooks\<close>

text \<open>
  The values of a metadata mapping are JSON values (numbers as integers); a mapping is kept
  as an association list in insertion order, and it is empty (falsy in Python) when the
  list is empty.
\<close>

datatype json = JNull | JBool bool | JNum int | JStr str | JList "json list"
  | JDict "(str \<times> json) list"

type_synonym metadata = "(str \<times> json) list"

text \<open>A cell carries its type tag, its source text and its metadata; the attributes that
  only some cell types have (outputs, execution count, attachments) are kept in
  \<open>other\<close>, so that a cell passed through is passed through whole.\<close>

record cell =
  cell_type :: str
  source :: str
  metadata :: metadata
  other :: "(str \<times> json) list"

record notebook =
  cells :: "cell list"
  nb_metadata :: metadata

text \<open>The constructors of \<open>nbformat.v4\<close> as far as this program reads their results:
  a new notebook has no cell and empty metadata, a new markdown cell has the given source
  and empty metadata. The identifier that later versions of the library draw for a new
  cell is not part of the model. \<open>new_latex_cell\<close> is the program's own.\<close>

definition new_notebook :: notebook where
  "new_notebook = \<lparr>cells = [], nb_metadata = []\<rparr>"

definition new_markdown_cell :: "str \<Rightarrow> cell" where
  "new_markdown_cell src =
     \<lparr>cell_type = py ''markdown'', source = src, metadata = [], other = []\<rparr>"

definition new_latex_cell :: "str \<Rightarrow> cell" where
  "new_latex_cell src =
     \<lparr>cell_type = py ''raw'', source = src,
      metadata = [(py ''raw_mimetype'', JStr (py ''text/latex''))], other = []\<rparr>"

section \<open>Paths\<close>

text \<open>
  A path is the list of its components. On a POSIX system \<open>pathlib\<close> compares two paths
  by comparing these lists, and a component by its code points: this is the lexicographic
  order on \<open>str list\<close>, and it is the order that \<open>sorted\<close> uses. The first component
  of an absolute path is its root, one slash or exactly two; \<open>str\<close> writes the root
  as it is and joins the other components with slashes. The name of a path is its last
  component (the root is no name), and the stem is the name without its last suffix (a
  dot that is neither the first nor the last character of the name starts the suffix).
\<close>

type_synonym Path = "str list"

definition is_root :: "str \<Rightarrow> bool" where
  "is_root part = (part = py ''/'' \<or> part = py ''//'')"

definition path_str :: "Path \<Rightarrow> str" where
  "path_str p =
     (if p = [] then py ''.''
      else if is_root (hd p) then hd p @ join (py ''/'') (tl p)
      else join (py ''/'') p)"

definition path_name :: "Path \<Rightarrow> str" where
  "path_name p = (if p = [] \<or> (length p = 1 \<and> is_root (hd p)) then [] else last p)"

fun rfind_dot :: "str \<Rightarrow> nat option" where
  "rfind_dot [] = None"
| "rfind_dot (c # s) =
     (case rfind_dot s of
        Some i \<Rightarrow> Some (Suc i)
      | None \<Rightarrow> if c = 46 then Some 0 else None)"

definition stem :: "Path \<Rightarrow> str" where
  "stem p =
     (let name = path_name p in
      case rfind_dot name of
        None \<Rightarrow> name
      | Some i \<Rightarrow> if 0 < i \<and> i < length name - 1 then take i name else name)"

section \<open>The label and heading extractor\<close>

datatype error = NoHeader str | IndexError | ReadError

text \<open>The heading detection of \<open>add_sec_label\<close>: the number of heading lines.
  \<open>lines[0]\<close> is read without a check, so no line at all is an \<open>IndexError\<close>.\<close>

definition header_lines :: "str list \<Rightarrow> error + nat" where
  "header_lines lines =
     (case lines of
        [] \<Rightarrow> Inl IndexError
      | l0 # _ \<Rightarrow>
          if startswith l0 (py ''# '') then Inr 1
          else if 1 < length lines \<and> startswith (lines ! 1) (py ''==='') then Inr 2
          else Inl (NoHeader []))"

text \<open>\<open>add_sec_label\<close>. The critical log entry for a first cell that is not a markdown
  cell changes neither the result nor the control flow and is not part of the result.\<close>

definition add_sec_label :: "cell \<Rightarrow> str \<Rightarrow> error + cell list" where
  "add_sec_label cell nbname =
     (let lines = splitlines (source cell) in
      case header_lines lines of
        Inl e \<Rightarrow> Inl e
      | Inr n \<Rightarrow>
          (let header = join (py ''\<newline>'') (take n lines);
               intro_remainder = strip (join (py ''\<newline>'') (drop n lines));
               res = [(new_markdown_cell header)\<lparr>metadata := metadata cell\<rparr>,
                      new_latex_cell (92 # py ''label{sec:'' @ nbname @ py ''}'')]
           in Inr (if intro_remainder \<noteq> [] then res @ [new_markdown_cell intro_remainder]
                   else res)))"

section \<open>The combiner\<close>

text \<open>
  \<open>nbformat.read\<close> is the file system as the run sees it: a partial map from paths to
  notebooks, a path that cannot be read raising an error of the library.
  The loop of \<open>combine_notebooks\<close> passes the combined notebook along; an exception
  leaves the loop with no notebook. Only \<open>NoHeader\<close> is caught and raised again with
  the file in its message.
\<close>

type_synonym files = "Path \<Rightarrow> notebook option"

fun combine_loop :: "files \<Rightarrow> Path list \<Rightarrow> notebook \<Rightarrow> error + notebook" where
  "combine_loop fs [] combined_nb = Inr combined_nb"
| "combine_loop fs (filename # rest) combined_nb =
     (case fs filename of
        None \<Rightarrow> Inl ReadError
      | Some nb \<Rightarrow>
          (case cells nb of
             [] \<Rightarrow> Inl IndexError
           | c # cs \<Rightarrow>
               (case add_sec_label c (stem filename) of
                  Inl (NoHeader _) \<Rightarrow>
                    Inl (NoHeader (py ''Failed to find header in '' @ path_str filename))
                | Inl e \<Rightarrow> Inl e
                | Inr labelled \<Rightarrow>
                    combine_loop fs rest
                      \<lparr>cells = cells combined_nb @ labelled @ cs,
                       nb_metadata = (if nb_metadata combined_nb = [] then nb_metadata nb
                                      else nb_metadata combined_nb)\<rparr>)))"

definition combine_notebooks :: "files \<Rightarrow> Path list \<Rightarrow> error + notebook" where
  "combine_notebooks fs notebook_files = combine_loop fs notebook_files new_notebook"

section \<open>The export request and the whole run\<close>

text \<open>
  \<open>export\<close> configures the exporter of \<open>nbconvert\<close> and runs it; the exporter, the
  writer and the typesetting are outside this program. What \<open>export\<close> decides itself is
  kept: the notebook, the target, the kind of exporter, the template and the three tag
  collections assigned to the configuration of the \<open>TagRemovePreprocessor\<close>, each with
  the default of the signature when the caller gives none.
\<close>

record export_request =
  exp_notebook :: notebook
  exp_output_file :: Path
  exp_pdf :: bool
  exp_template_file :: "Path option"
  remove_cell_tags :: "str list"
  remove_all_outputs_tags :: "str list"
  remove_input_tags :: "str list"

definition export ::
  "notebook \<Rightarrow> Path \<Rightarrow> bool \<Rightarrow> Path option \<Rightarrow> str list option \<Rightarrow> str list option
     \<Rightarrow> str list option \<Rightarrow> export_request" where
  "export combined_nb output_file pdf template_file cell_tags outputs_tags input_tags =
     \<lparr>exp_notebook = combined_nb,
      exp_output_file = output_file,
      exp_pdf = pdf,
      exp_template_file = template_file,
      remove_cell_tags =
        (case cell_tags of None \<Rightarrow> [py ''hidden'', py ''remove_cell''] | Some ts \<Rightarrow> ts),
      remove_all_outputs_tags =
        (case outputs_tags of None \<Rightarrow> [py ''hidden'', py ''remove_output''] | Some ts \<Rightarrow> ts),
      remove_input_tags =
        (case input_tags of None \<Rightarrow> [py ''hidden'', py ''remove_input''] | Some ts \<Rightarrow> ts)\<rparr>"

text \<open>
  \<open>combine_and_convert\<close>: \<open>matched\<close> is what \<open>source_dir.glob(files_pattern)\<close> yields,
  in the order in which it yields it. The paths are sorted, combined, and the combined
  notebook is exported with no tag collection given.
\<close>

definition combine_and_convert ::
  "files \<Rightarrow> Path list \<Rightarrow> Path \<Rightarrow> bool \<Rightarrow> Path option \<Rightarrow> error + export_request" where
  "combine_and_convert fs matched output_file pdf template_file =
     (let notebook_files = sort matched in
      case combine_notebooks fs notebook_files of
        Inl e \<Rightarrow> Inl e
      | Inr combined_nb \<Rightarrow> Inr (export combined_nb output_file pdf template_file None None None))"

section \<open>The combined document as the specification describes it\<close>

text \<open>
  The unit sequence of one chapter in the words of the specification: the heading unit
  (line 1 when it starts with \<open>#\<close> and a blank, lines 1 and 2 otherwise) with the
  metadata of the first unit, the label unit \<open>sec:\<close> followed by the chapter's stem, a
  unit for the rest of the first unit when non-blank text follows the heading, and the
  units 2 to N of the chapter.
\<close>

definition spec_heading_lines :: "str list \<Rightarrow> str list" where
  "spec_heading_lines lines =
     (case lines of
        [] \<Rightarrow> []
      | l0 # ls \<Rightarrow> if startswith l0 (py ''# '') then [l0] else l0 # take 1 ls)"

definition spec_rest_lines :: "str list \<Rightarrow> str list" where
  "spec_rest_lines lines =
     (case lines of
        [] \<Rightarrow> []
      | l0 # ls \<Rightarrow> if startswith l0 (py ''# '') then ls else drop 1 ls)"

definition spec_heading_unit :: "cell \<Rightarrow> cell" where
  "spec_heading_unit c =
     \<lparr>cell_type = py ''markdown'',
      source = join [10] (spec_heading_lines (splitlines (source c))),
      metadata = metadata c, other = []\<rparr>"

definition spec_label_unit :: "str \<Rightarrow> cell" where
  "spec_label_unit name =
     \<lparr>cell_type = py ''raw'', source = 92 # py ''label{sec:'' @ name @ py ''}'',
      metadata = [(py ''raw_mimetype'', JStr (py ''text/latex''))], other = []\<rparr>"

definition spec_intro_units :: "cell \<Rightarrow> cell list" where
  "spec_intro_units c =
     (let rest = spec_rest_lines (splitlines (source c)) in
      if list_ex (list_ex (\<lambda>ch. \<not> is_space ch)) rest
      then [\<lparr>cell_type = py ''markdown'', source = strip (join [10] rest),
             metadata = [], other = []\<rparr>]
      else [])"

definition spec_chapter_units :: "files \<Rightarrow> Path \<Rightarrow> cell list" where
  "spec_chapter_units fs f =
     (case fs f of
        None \<Rightarrow> []
      | Some nb \<Rightarrow>
          (case cells nb of
             [] \<Rightarrow> []
           | c # cs \<Rightarrow> spec_heading_unit c # spec_label_unit (stem f) # spec_intro_units c @ cs))"

text \<open>The metadata of the combined document in the words of section 4.3: that of the first
  chapter whose metadata is not empty, and empty when there is none.\<close>

definition spec_first_metadata :: "notebook list \<Rightarrow> metadata" where
  "spec_first_metadata nbs =
     (case find (\<lambda>m. m \<noteq> []) (map nb_metadata nbs) of None \<Rightarrow> [] | Some m \<Rightarrow> m)"

section \<open>A small book\<close>

text \<open>
  Five chapter files of one directory: a chapter with a heading of the first form, text
  after it and no metadata; a chapter with a heading of the second form and metadata; two
  chapters whose first unit has no heading; a chapter whose first unit is empty. And two
  chapter files of two directories, \<open>a/2.ipynb\<close> and \<open>a-b/1.ipynb\<close>.
\<close>

definition code_cell :: "str \<Rightarrow> cell" where
  "code_cell src =
     \<lparr>cell_type = py ''code'', source = src, metadata = [],
      other = [(py ''execution_count'', JNum 1), (py ''outputs'', JList [])]\<rparr>"

definition intro_path :: Path where
  "intro_path = [py ''book'', py ''01-intro.ipynb'']"

definition details_path :: Path where
  "details_path = [py ''book'', py ''02-details.ipynb'']"

definition notes_path :: Path where
  "notes_path = [py ''book'', py ''03-notes.ipynb'']"

definition extra_path :: Path where
  "extra_path = [py ''book'', py ''04-extra.ipynb'']"

definition blank_path :: Path where
  "blank_path = [py ''book'', py ''05-blank.ipynb'']"

definition intro_nb :: notebook where
  "intro_nb =
     \<lparr>cells = [(new_markdown_cell (py ''# Introduction\<newline>\<newline>See the details.''))
                  \<lparr>metadata := [(py ''tags'', JList [JStr (py ''title'')])]\<rparr>,
               code_cell (py ''print(1)'')],
      nb_metadata = []\<rparr>"

definition details_nb :: notebook where
  "details_nb =
     \<lparr>cells = [new_markdown_cell (py ''Details\<newline>=======''), new_markdown_cell (py ''More.'')],
      nb_metadata = [(py ''title'', JStr (py ''Book''))]\<rparr>"

definition notes_nb :: notebook where
  "notes_nb = \<lparr>cells = [new_markdown_cell (py ''Notes'')], nb_metadata = []\<rparr>"

definition blank_nb :: notebook where
  "blank_nb =
     \<lparr>cells = [new_markdown_cell [], new_markdown_cell (py ''# Late'')], nb_metadata = []\<rparr>"

definition book_fs :: files where
  "book_fs =
     map_of [(intro_path, intro_nb), (details_path, details_nb), (notes_path, notes_nb),
             (extra_path, notes_nb), (blank_path, blank_nb)]"

definition two_path :: Path where
  "two_path = [py ''a'', py ''2.ipynb'']"

definition one_path :: Path where
  "one_path = [py ''a-b'', py ''1.ipynb'']"

definition shelf_fs :: files where
  "shelf_fs =
     map_of [(two_path, \<lparr>cells = [new_markdown_cell (py ''# Two'')], nb_metadata = []\<rparr>),
             (one_path, \<lparr>cells = [new_markdown_cell (py ''# One'')], nb_metadata = []\<rparr>)]"

section \<open>Lines, joining and stripping\<close>

lemma splitlines_no_linebreak:
  "l \<in> set (splitlines s) \<Longrightarrow> c \<in> set l \<Longrightarrow> \<not> is_linebreak c"
proof (induction s arbitrary: l rule: splitlines.induct)
  case 1
  then show ?case by simp
next
  case (2 a s)
  from "2.prems"(1) consider
      (head) "l = takeWhile (\<lambda>x. \<not> is_linebreak x) (a # s)"
    | (tail) "l \<in> set (splitlines (skip_linebreak (dropWhile (\<lambda>x. \<not> is_linebreak x) (a # s))))"
    by auto
  then show ?case
  proof cases
    case head
    with "2.prems"(2) show ?thesis by (auto dest: set_takeWhileD)
  next
    case tail
    with "2.IH" "2.prems"(2) show ?thesis by blast
  qed
qed

lemma splitlines_eq_Nil [simp]: "splitlines s = [] \<longleftrightarrow> s = []"
  by (cases s) simp_all

lemma splitlines_single:
  assumes "x \<noteq> []" and "\<forall>c\<in>set x. \<not> is_linebreak c"
  shows "splitlines x = [x]"
proof -
  from assms(1) obtain a s where x: "x = a # s" by (cases x) auto
  from assms(2) have "takeWhile (\<lambda>c. \<not> is_linebreak c) x = x"
    and "dropWhile (\<lambda>c. \<not> is_linebreak c) x = []"
    by simp_all
  then show ?thesis unfolding x by (simp add: skip_linebreak_def)
qed

lemma splitlines_line_LF:
  assumes "\<forall>c\<in>set x. \<not> is_linebreak c"
  shows "splitlines (x @ 10 # rest) = x # splitlines rest"
proof -
  have lb: "is_linebreak 10" by (simp add: is_linebreak_def)
  from assms lb have tw: "takeWhile (\<lambda>c. \<not> is_linebreak c) (x @ 10 # rest) = x"
    by simp
  from assms lb have dw: "dropWhile (\<lambda>c. \<not> is_linebreak c) (x @ 10 # rest) = 10 # rest"
    by simp
  obtain a s where as: "x @ 10 # rest = a # s" by (cases x) auto
  have "splitlines (a # s) = takeWhile (\<lambda>x. \<not> is_linebreak x) (a # s)
       # splitlines (skip_linebreak (dropWhile (\<lambda>x. \<not> is_linebreak x) (a # s)))"
    by simp
  then show ?thesis
    unfolding as [symmetric] tw dw by (simp add: skip_linebreak_def)
qed

lemma splitlines_join:
  assumes "ls \<noteq> []" and "last ls \<noteq> []"
    and "\<forall>l\<in>set ls. \<forall>c\<in>set l. \<not> is_linebreak c"
  shows "splitlines (join [10] ls) = ls"
  using assms
proof (induction "[10::nat]" ls rule: join.induct)
  case 1
  then show ?case by simp
next
  case (2 x)
  then show ?case by (simp add: splitlines_single)
next
  case (3 x y ys)
  then have "splitlines (join [10] (y # ys)) = y # ys" by simp
  moreover from "3.prems" have "\<forall>c\<in>set x. \<not> is_linebreak c" by simp
  ultimately show ?case by (simp add: splitlines_line_LF)
qed

lemma strip_eq_Nil: "strip s = [] \<longleftrightarrow> (\<forall>c\<in>set s. is_space c)"
proof
  assume "strip s = []"
  then have all: "\<forall>c\<in>set (dropWhile is_space s). is_space c"
    by (simp add: strip_def)
  have "dropWhile is_space s = []"
  proof (rule ccontr)
    assume ne: "dropWhile is_space s \<noteq> []"
    then have "\<not> is_space (hd (dropWhile is_space s))" by (rule hd_dropWhile)
    moreover from ne have "hd (dropWhile is_space s) \<in> set (dropWhile is_space s)" by simp
    ultimately show False using all by blast
  qed
  then show "\<forall>c\<in>set s. is_space c" by simp
next
  assume "\<forall>c\<in>set s. is_space c"
  then have dw: "dropWhile is_space s = []" by simp
  show "strip s = []" unfolding strip_def dw by simp
qed

lemma set_join_LF: "set (join [10] ls) \<subseteq> insert 10 (\<Union>(set ` set ls))"
  by (induction "[10::nat]" ls rule: join.induct) auto

lemma set_join_lines: "l \<in> set ls \<Longrightarrow> set l \<subseteq> set (join sep ls)"
  by (induction sep ls rule: join.induct) auto

lemma join_all_space:
  "(\<forall>c\<in>set (join [10] ls). is_space c) \<longleftrightarrow> (\<forall>l\<in>set ls. \<forall>c\<in>set l. is_space c)"
proof
  assume "\<forall>c\<in>set (join [10] ls). is_space c"
  then show "\<forall>l\<in>set ls. \<forall>c\<in>set l. is_space c"
    using set_join_lines [of _ ls "[10]"] by blast
next
  assume a: "\<forall>l\<in>set ls. \<forall>c\<in>set l. is_space c"
  have "is_space 10" by (simp add: is_space_def)
  with a show "\<forall>c\<in>set (join [10] ls). is_space c"
    using set_join_LF [of ls] by auto
qed

section \<open>The extractor: success and failure\<close>

lemma startswith_nonempty: "startswith s p \<Longrightarrow> p \<noteq> [] \<Longrightarrow> s \<noteq> []"
  by (auto simp: startswith_def)

lemma header_lines_Inr:
  "header_lines ls = Inr n \<longleftrightarrow>
     (\<exists>l0 rest. ls = l0 # rest \<and>
        (if startswith l0 (py ''# '') then n = 1
         else rest \<noteq> [] \<and> startswith (hd rest) (py ''==='') \<and> n = 2))"
  by (cases ls; cases "tl ls") (auto simp: header_lines_def)

lemma header_lines_Inl:
  "header_lines ls = Inl e \<longleftrightarrow>
     (case ls of
        [] \<Rightarrow> e = IndexError
      | l0 # rest \<Rightarrow> \<not> startswith l0 (py ''# '')
          \<and> \<not> (rest \<noteq> [] \<and> startswith (hd rest) (py ''===''))
          \<and> e = NoHeader [])"
  by (cases ls; cases "tl ls") (auto simp: header_lines_def)

lemma header_lines_spec:
  assumes "header_lines ls = Inr n"
  shows "take n ls = spec_heading_lines ls" and "drop n ls = spec_rest_lines ls"
  using assms
  by (auto simp: header_lines_Inr spec_heading_lines_def spec_rest_lines_def drop_Suc
      split: if_splits)

lemma add_sec_label_Inl:
  "add_sec_label c nbname = Inl e \<longleftrightarrow> header_lines (splitlines (source c)) = Inl e"
  by (auto simp: add_sec_label_def Let_def split: sum.splits)

lemma add_sec_label_Inr:
  "add_sec_label c nbname = Inr res \<longleftrightarrow>
     (\<exists>n. header_lines (splitlines (source c)) = Inr n \<and>
        res = (new_markdown_cell (join [10] (take n (splitlines (source c)))))
                \<lparr>metadata := metadata c\<rparr>
              # new_latex_cell (92 # py ''label{sec:'' @ nbname @ py ''}'')
              # (if strip (join [10] (drop n (splitlines (source c)))) \<noteq> []
                 then [new_markdown_cell (strip (join [10] (drop n (splitlines (source c)))))]
                 else []))"
  by (auto simp: add_sec_label_def Let_def split: sum.splits)

lemma strip_join_nonblank:
  "strip (join [10] ls) \<noteq> [] \<longleftrightarrow> (\<exists>l\<in>set ls. \<exists>ch\<in>set l. \<not> is_space ch)"
  by (simp add: strip_eq_Nil join_all_space)

lemma add_sec_label_spec:
  assumes "add_sec_label c nbname = Inr res"
  shows "res = spec_heading_unit c # spec_label_unit nbname # spec_intro_units c"
proof -
  from assms obtain n where n: "header_lines (splitlines (source c)) = Inr n"
    and res: "res = (new_markdown_cell (join [10] (take n (splitlines (source c)))))
                \<lparr>metadata := metadata c\<rparr>
              # new_latex_cell (92 # py ''label{sec:'' @ nbname @ py ''}'')
              # (if strip (join [10] (drop n (splitlines (source c)))) \<noteq> []
                 then [new_markdown_cell (strip (join [10] (drop n (splitlines (source c)))))]
                 else [])"
    unfolding add_sec_label_Inr by blast
  note sp = header_lines_spec [OF n]
  have nonblank: "list_ex (list_ex (\<lambda>ch. \<not> is_space ch)) (spec_rest_lines (splitlines (source c)))
      \<longleftrightarrow> strip (join [10] (spec_rest_lines (splitlines (source c)))) \<noteq> []"
    unfolding strip_join_nonblank by (simp add: list_ex_iff)
  show ?thesis
    unfolding res sp
    by (simp add: spec_heading_unit_def spec_label_unit_def spec_intro_units_def nonblank
        new_markdown_cell_def new_latex_cell_def Let_def)
qed

section \<open>The combiner: the loop\<close>

lemma combine_loop_cells:
  assumes "\<forall>f\<in>set files. \<exists>nb c cs units.
             fs f = Some nb \<and> cells nb = c # cs \<and> add_sec_label c (stem f) = Inr units"
  shows "\<exists>combined. combine_loop fs files acc = Inr combined \<and>
           cells combined = cells acc @ concat (map (spec_chapter_units fs) files)"
  using assms
proof (induction files arbitrary: acc)
  case Nil
  then show ?case by simp
next
  case (Cons f files)
  from Cons.prems obtain nb c cs units where f: "fs f = Some nb" "cells nb = c # cs"
    "add_sec_label c (stem f) = Inr units"
    by auto
  let ?acc = "\<lparr>cells = cells acc @ units @ cs,
               nb_metadata = (if nb_metadata acc = [] then nb_metadata nb else nb_metadata acc)\<rparr>"
  from Cons.prems have "\<forall>f\<in>set files. \<exists>nb c cs units.
             fs f = Some nb \<and> cells nb = c # cs \<and> add_sec_label c (stem f) = Inr units"
    by simp
  from Cons.IH [OF this, of ?acc] obtain combined where
    c: "combine_loop fs files ?acc = Inr combined"
       "cells combined = cells ?acc @ concat (map (spec_chapter_units fs) files)"
    by blast
  have units: "units @ cs = spec_chapter_units fs f"
    using add_sec_label_spec [OF f(3)] f(1,2) by (simp add: spec_chapter_units_def)
  have "combine_loop fs (f # files) acc = combine_loop fs files ?acc"
    by (simp add: f)
  with c units show ?case by (simp flip: append_assoc)
qed

lemma combine_loop_Inr:
  assumes "combine_loop fs files acc = Inr combined"
  shows "\<forall>f\<in>set files. \<exists>nb c cs units.
             fs f = Some nb \<and> cells nb = c # cs \<and> add_sec_label c (stem f) = Inr units"
  using assms
proof (induction files arbitrary: acc)
  case Nil
  then show ?case by simp
next
  case (Cons f files)
  from Cons.prems obtain nb where nb: "fs f = Some nb"
    by (cases "fs f") auto
  with Cons.prems obtain c cs where cs: "cells nb = c # cs"
    by (cases "cells nb") auto
  with nb Cons.prems obtain units where u: "add_sec_label c (stem f) = Inr units"
    by (cases "add_sec_label c (stem f)") (auto split: error.splits)
  with nb cs Cons.prems Cons.IH show ?case by auto
qed

lemma combine_loop_metadata:
  assumes "combine_loop fs files acc = Inr combined"
  shows "\<exists>nbs. map fs files = map Some nbs \<and>
           nb_metadata combined =
             (if nb_metadata acc = [] then spec_first_metadata nbs else nb_metadata acc)"
  using assms
proof (induction files arbitrary: acc)
  case Nil
  then show ?case by (simp add: spec_first_metadata_def)
next
  case (Cons f files)
  from Cons.prems obtain nb where nb: "fs f = Some nb"
    by (cases "fs f") auto
  with Cons.prems obtain c cs where cs: "cells nb = c # cs"
    by (cases "cells nb") auto
  with nb Cons.prems obtain units where u: "add_sec_label c (stem f) = Inr units"
    by (cases "add_sec_label c (stem f)") (auto split: error.splits)
  let ?acc = "\<lparr>cells = cells acc @ units @ cs,
               nb_metadata = (if nb_metadata acc = [] then nb_metadata nb else nb_metadata acc)\<rparr>"
  from Cons.prems nb cs u have "combine_loop fs files ?acc = Inr combined" by simp
  from Cons.IH [OF this] obtain nbs where nbs: "map fs files = map Some nbs"
    "nb_metadata combined =
       (if nb_metadata ?acc = [] then spec_first_metadata nbs else nb_metadata ?acc)"
    by blast
  have "map fs (f # files) = map Some (nb # nbs)" by (simp add: nb nbs(1))
  moreover have "nb_metadata combined =
      (if nb_metadata acc = [] then spec_first_metadata (nb # nbs) else nb_metadata acc)"
    using nbs(2) by (simp add: spec_first_metadata_def)
  ultimately show ?case by blast
qed

lemma combine_loop_append:
  assumes "combine_loop fs pre acc = Inr mid"
  shows "combine_loop fs (pre @ post) acc = combine_loop fs post mid"
  using assms
proof (induction pre arbitrary: acc)
  case Nil
  then show ?case by simp
next
  case (Cons f pre)
  from Cons.prems obtain nb where nb: "fs f = Some nb"
    by (cases "fs f") auto
  with Cons.prems obtain c cs where cs: "cells nb = c # cs"
    by (cases "cells nb") auto
  with nb Cons.prems obtain units where u: "add_sec_label c (stem f) = Inr units"
    by (cases "add_sec_label c (stem f)") (auto split: error.splits)
  from Cons.prems Cons.IH nb cs u show ?case by simp
qed

lemma combine_loop_no_header:
  assumes "fs x = Some nb" and "cells nb = c # cs"
    and "header_lines (splitlines (source c)) = Inl (NoHeader m)"
  shows "combine_loop fs (x # post) acc =
           Inl (NoHeader (py ''Failed to find header in '' @ path_str x))"
proof -
  from assms(3) have "add_sec_label c (stem x) = Inl (NoHeader m)"
    by (simp add: add_sec_label_Inl)
  with assms(1,2) show ?thesis by simp
qed

text \<open>A chapter whose first unit has at least one line and neither heading form, after
  chapters that are combined: the run leaves with \<open>NoHeader\<close> and the path of this
  chapter in the message.\<close>

lemma combine_notebooks_no_header:
  assumes "\<forall>f\<in>set pre. \<exists>nb c cs units.
             fs f = Some nb \<and> cells nb = c # cs \<and> add_sec_label c (stem f) = Inr units"
    and "fs x = Some nb" and "cells nb = c # cs"
    and "splitlines (source c) = l0 # ls"
    and "\<not> startswith l0 (py ''# '')"
    and "ls = [] \<or> \<not> startswith (hd ls) (py ''==='')"
  shows "combine_notebooks fs (pre @ x # post) =
           Inl (NoHeader (py ''Failed to find header in '' @ path_str x))"
proof -
  from combine_loop_cells [OF assms(1), of new_notebook] obtain mid where
    "combine_loop fs pre new_notebook = Inr mid"
    by blast
  then have "combine_loop fs (pre @ x # post) new_notebook = combine_loop fs (x # post) mid"
    by (rule combine_loop_append)
  moreover from assms(4-6) have "header_lines (splitlines (source c)) = Inl (NoHeader [])"
    by (auto simp: header_lines_Inl)
  ultimately show ?thesis
    using combine_loop_no_header [of fs x nb c cs "[]" post mid] assms(2,3)
    by (simp add: combine_notebooks_def)
qed

section \<open>The combiner: the metadata\<close>

lemma spec_first_metadata_first:
  assumes "\<forall>p\<in>set pre. nb_metadata p = []" and "nb_metadata nb \<noteq> []"
  shows "spec_first_metadata (pre @ nb # post) = nb_metadata nb"
  using assms by (induction pre) (simp_all add: spec_first_metadata_def)

lemma spec_first_metadata_none:
  assumes "\<forall>nb\<in>set nbs. nb_metadata nb = []"
  shows "spec_first_metadata nbs = []"
  using assms by (induction nbs) (simp_all add: spec_first_metadata_def)

lemma combine_notebooks_nbs:
  assumes "combine_notebooks fs notebook_files = Inr combined"
  shows "\<exists>nbs. map fs notebook_files = map Some nbs \<and>
           nb_metadata combined = spec_first_metadata nbs"
proof -
  from assms have "combine_loop fs notebook_files new_notebook = Inr combined"
    by (simp add: combine_notebooks_def)
  from combine_loop_metadata [OF this] show ?thesis
    by (simp add: new_notebook_def)
qed

section \<open>Sorting paths\<close>

lemma path_same_dir_le: "(dir @ [n] :: Path) \<le> dir @ [m] \<longleftrightarrow> n \<le> m"
  by (induction dir) auto

lemma sort_same_dir:
  "sort (map (\<lambda>n. dir @ [n]) names :: Path list) = map (\<lambda>n. dir @ [n]) (sort names)"
proof (rule properties_for_sort)
  show "mset (map (\<lambda>n. dir @ [n]) (sort names)) = mset (map (\<lambda>n. dir @ [n]) names)"
    by simp
  have "sorted_wrt (\<lambda>n m. dir @ [n] \<le> dir @ [m]) (sort names)"
    by (simp add: path_same_dir_le)
  then show "sorted (map (\<lambda>n. dir @ [n]) (sort names))"
    by (simp add: sorted_wrt_map)
qed

lemma sort_listing_order:
  "mset matched' = mset matched \<Longrightarrow> sort matched' = sort (matched :: Path list)"
  by (rule properties_for_sort) simp_all

section \<open>The small book, evaluated\<close>

lemmas eval_defs = add_sec_label_def header_lines_def startswith_def strip_def is_space_def
  is_linebreak_def skip_linebreak_def new_markdown_cell_def new_latex_cell_def Let_def

lemma stems:
  "stem intro_path = py ''01-intro''" "stem details_path = py ''02-details''"
  "stem two_path = py ''2''" "stem one_path = py ''1''"
  by (simp_all add: stem_def path_name_def is_root_def intro_path_def details_path_def two_path_def
      one_path_def)

lemma book_fs_simps:
  "book_fs intro_path = Some intro_nb" "book_fs details_path = Some details_nb"
  "book_fs notes_path = Some notes_nb" "book_fs extra_path = Some notes_nb"
  "book_fs blank_path = Some blank_nb"
  by (simp_all add: book_fs_def intro_path_def details_path_def notes_path_def extra_path_def
      blank_path_def)

lemma intro_units:
  "add_sec_label (hd (cells intro_nb)) (py ''01-intro'') =
     Inr [(new_markdown_cell (py ''# Introduction''))
             \<lparr>metadata := [(py ''tags'', JList [JStr (py ''title'')])]\<rparr>,
          new_latex_cell (92 # py ''label{sec:01-intro}''),
          new_markdown_cell (py ''See the details.'')]"
  by (simp add: intro_nb_def eval_defs)

lemma details_units:
  "add_sec_label (hd (cells details_nb)) (py ''02-details'') =
     Inr [new_markdown_cell (py ''Details\<newline>=======''),
          new_latex_cell (92 # py ''label{sec:02-details}'')]"
  by (simp add: details_nb_def eval_defs)

lemma notes_no_header:
  "header_lines (splitlines (source (hd (cells notes_nb)))) = Inl (NoHeader [])"
  by (simp add: notes_nb_def eval_defs)

lemma book_extractable:
  "\<forall>f\<in>set [intro_path, details_path]. \<exists>nb c cs units.
     book_fs f = Some nb \<and> cells nb = c # cs \<and> add_sec_label c (stem f) = Inr units"
  "\<forall>f\<in>set [details_path, intro_path]. \<exists>nb c cs units.
     book_fs f = Some nb \<and> cells nb = c # cs \<and> add_sec_label c (stem f) = Inr units"
  "\<forall>f\<in>set [intro_path]. \<exists>nb c cs units.
     book_fs f = Some nb \<and> cells nb = c # cs \<and> add_sec_label c (stem f) = Inr units"
proof -
  have i: "\<exists>nb c cs units. book_fs intro_path = Some nb \<and> cells nb = c # cs
      \<and> add_sec_label c (stem intro_path) = Inr units"
    using intro_units by (simp add: book_fs_simps stems intro_nb_def)
  have d: "\<exists>nb c cs units. book_fs details_path = Some nb \<and> cells nb = c # cs
      \<and> add_sec_label c (stem details_path) = Inr units"
    using details_units by (simp add: book_fs_simps stems details_nb_def)
  from i d show
    "\<forall>f\<in>set [intro_path, details_path]. \<exists>nb c cs units.
       book_fs f = Some nb \<and> cells nb = c # cs \<and> add_sec_label c (stem f) = Inr units"
    "\<forall>f\<in>set [details_path, intro_path]. \<exists>nb c cs units.
       book_fs f = Some nb \<and> cells nb = c # cs \<and> add_sec_label c (stem f) = Inr units"
    "\<forall>f\<in>set [intro_path]. \<exists>nb c cs units.
       book_fs f = Some nb \<and> cells nb = c # cs \<and> add_sec_label c (stem f) = Inr units"
    by simp_all
qed

lemma shelf_fs_simps:
  "shelf_fs two_path = Some \<lparr>cells = [new_markdown_cell (py ''# Two'')], nb_metadata = []\<rparr>"
  "shelf_fs one_path = Some \<lparr>cells = [new_markdown_cell (py ''# One'')], nb_metadata = []\<rparr>"
  by (simp_all add: shelf_fs_def two_path_def one_path_def)

lemma sort_shelf: "sort [one_path, two_path] = [two_path, one_path]"
  by (simp add: one_path_def two_path_def)

lemma combine_notebooks_no_header_book:
  "add_sec_label (hd (cells intro_nb)) (stem intro_path) =
     Inr [(new_markdown_cell (py ''# Introduction''))
             \<lparr>metadata := [(py ''tags'', JList [JStr (py ''title'')])]\<rparr>,
          new_latex_cell (92 # py ''label{sec:01-intro}''),
          new_markdown_cell (py ''See the details.'')] \<and>
   splitlines (source (hd (cells notes_nb))) = [py ''Notes''] \<and>
   combine_notebooks book_fs ([intro_path] @ notes_path # [details_path]) =
     Inl (NoHeader (py ''Failed to find header in book/03-notes.ipynb''))"
proof -
  have lines: "splitlines (source (new_markdown_cell (py ''Notes''))) = py ''Notes'' # []"
    by (simp add: eval_defs)
  have c: "cells notes_nb = new_markdown_cell (py ''Notes'') # []"
    by (simp add: notes_nb_def)
  have "\<not> startswith (py ''Notes'') (py ''# '')"
    by (simp add: startswith_def)
  from combine_notebooks_no_header [OF book_extractable(3) book_fs_simps(3) c lines this, of "[details_path]"]
  show ?thesis
    using intro_units lines by (simp add: stems c path_str_def is_root_def notes_path_def)
qed

section \<open>The claims\<close>

text \<open>
  C1. When the first unit of every chapter of the list is extracted successfully, combining
  succeeds and the units of the combined document are, chapter after chapter in the order
  of the list: the heading unit, the label unit \<open>sec:\<close> with the chapter's stem, the unit
  for the rest of the first unit when non-blank text follows the heading, and the
  chapter's units 2 to N as they are.
\<close>

theorem combine_notebooks_unit_sequence:
  assumes "\<forall>f\<in>set notebook_files. \<exists>nb c cs units.
             fs f = Some nb \<and> cells nb = c # cs \<and> add_sec_label c (stem f) = Inr units"
  shows "\<exists>combined. combine_notebooks fs notebook_files = Inr combined \<and>
           cells combined = concat (map (spec_chapter_units fs) notebook_files)"
  using combine_loop_cells [OF assms, of new_notebook]
  by (simp add: combine_notebooks_def new_notebook_def)

theorem combine_notebooks_unit_sequence_witness:
  "add_sec_label (hd (cells intro_nb)) (stem intro_path) =
     Inr [(new_markdown_cell (py ''# Introduction''))
             \<lparr>metadata := [(py ''tags'', JList [JStr (py ''title'')])]\<rparr>,
          new_latex_cell (92 # py ''label{sec:01-intro}''),
          new_markdown_cell (py ''See the details.'')] \<and>
   add_sec_label (hd (cells details_nb)) (stem details_path) =
     Inr [new_markdown_cell (py ''Details\<newline>=======''),
          new_latex_cell (92 # py ''label{sec:02-details}'')] \<and>
   map_sum id cells (combine_notebooks book_fs [intro_path, details_path]) =
     Inr [(new_markdown_cell (py ''# Introduction''))
             \<lparr>metadata := [(py ''tags'', JList [JStr (py ''title'')])]\<rparr>,
          new_latex_cell (92 # py ''label{sec:01-intro}''),
          new_markdown_cell (py ''See the details.''),
          code_cell (py ''print(1)''),
          new_markdown_cell (py ''Details\<newline>=======''),
          new_latex_cell (92 # py ''label{sec:02-details}''),
          new_markdown_cell (py ''More.'')]"
proof -
  from combine_notebooks_unit_sequence [OF book_extractable(1)] obtain combined where
    c: "combine_notebooks book_fs [intro_path, details_path] = Inr combined"
       "cells combined = concat (map (spec_chapter_units book_fs) [intro_path, details_path])"
    by blast
  have "spec_chapter_units book_fs intro_path =
      [(new_markdown_cell (py ''# Introduction''))
             \<lparr>metadata := [(py ''tags'', JList [JStr (py ''title'')])]\<rparr>,
          new_latex_cell (92 # py ''label{sec:01-intro}''),
          new_markdown_cell (py ''See the details.''),
          code_cell (py ''print(1)'')]"
    by (simp add: spec_chapter_units_def book_fs_simps stems intro_nb_def spec_heading_unit_def
        spec_label_unit_def spec_intro_units_def spec_heading_lines_def spec_rest_lines_def
        eval_defs)
  moreover have "spec_chapter_units book_fs details_path =
      [new_markdown_cell (py ''Details\<newline>=======''),
          new_latex_cell (92 # py ''label{sec:02-details}''),
          new_markdown_cell (py ''More.'')]"
    by (simp add: spec_chapter_units_def book_fs_simps stems details_nb_def
        spec_heading_unit_def spec_label_unit_def spec_intro_units_def spec_heading_lines_def
        spec_rest_lines_def eval_defs)
  ultimately show ?thesis
    using c intro_units details_units by (simp add: stems)
qed

text \<open>
  C2, as amended. When the metadata of the first chapter of the list is not empty, the
  metadata of the combined document is that of the first chapter, whatever the metadata of
  the later chapters. (When it is empty, a later chapter's metadata is taken: see the
  counterexample.)
\<close>

theorem combine_notebooks_first_metadata:
  assumes "combine_notebooks fs (f # rest) = Inr combined"
    and "fs f = Some nb" and "nb_metadata nb \<noteq> []"
  shows "nb_metadata combined = nb_metadata nb"
proof -
  from combine_notebooks_nbs [OF assms(1)] obtain nbs where
    nbs: "map fs (f # rest) = map Some nbs" "nb_metadata combined = spec_first_metadata nbs"
    by blast
  from nbs(1) assms(2) obtain nbs' where "nbs = nb # nbs'"
    by (cases nbs) auto
  with nbs(2) assms(3) show ?thesis
    by (simp add: spec_first_metadata_def)
qed

theorem combine_notebooks_first_metadata_witness:
  "book_fs details_path = Some details_nb \<and>
   nb_metadata details_nb = [(py ''title'', JStr (py ''Book''))] \<and>
   map_sum id nb_metadata (combine_notebooks book_fs [details_path, intro_path]) =
     Inr [(py ''title'', JStr (py ''Book''))]"
proof -
  from combine_loop_cells [OF book_extractable(2), of new_notebook] obtain combined where
    c: "combine_notebooks book_fs [details_path, intro_path] = Inr combined"
    by (auto simp: combine_notebooks_def)
  have m: "nb_metadata details_nb = [(py ''title'', JStr (py ''Book''))]"
    by (simp add: details_nb_def)
  then have "nb_metadata details_nb \<noteq> []" by simp
  from combine_notebooks_first_metadata [OF c book_fs_simps(2) this]
  show ?thesis by (simp add: c m book_fs_simps)
qed

theorem combine_notebooks_first_metadata_counterexample:
  "book_fs intro_path = Some intro_nb \<and> nb_metadata intro_nb = [] \<and>
   map_sum id nb_metadata (combine_notebooks book_fs [intro_path, details_path]) =
     Inr [(py ''title'', JStr (py ''Book''))]"
  by (simp add: combine_notebooks_def new_notebook_def book_fs_simps stems intro_nb_def
      details_nb_def eval_defs)

text \<open>
  C3. The metadata of the combined document is the metadata of the first chapter, in the
  order of processing, whose metadata is not empty; the metadata of the chapters after it
  is discarded; when no chapter has metadata, the combined document has none.
\<close>

theorem combine_notebooks_metadata:
  assumes "combine_notebooks fs notebook_files = Inr combined"
  shows "\<exists>nbs. map fs notebook_files = map Some nbs \<and>
           nb_metadata combined = spec_first_metadata nbs \<and>
           (\<forall>pre nb post. nbs = pre @ nb # post \<and> (\<forall>p\<in>set pre. nb_metadata p = []) \<and>
                nb_metadata nb \<noteq> [] \<longrightarrow> nb_metadata combined = nb_metadata nb) \<and>
           ((\<forall>nb\<in>set nbs. nb_metadata nb = []) \<longrightarrow> nb_metadata combined = [])"
proof -
  from combine_notebooks_nbs [OF assms] obtain nbs where
    nbs: "map fs notebook_files = map Some nbs" "nb_metadata combined = spec_first_metadata nbs"
    by blast
  show ?thesis
  proof (intro exI conjI allI impI)
    show "map fs notebook_files = map Some nbs" by (rule nbs(1))
    show "nb_metadata combined = spec_first_metadata nbs" by (rule nbs(2))
  next
    fix pre nb post
    assume "nbs = pre @ nb # post \<and> (\<forall>p\<in>set pre. nb_metadata p = []) \<and> nb_metadata nb \<noteq> []"
    then show "nb_metadata combined = nb_metadata nb"
      using nbs(2) by (simp add: spec_first_metadata_first)
  next
    assume "\<forall>nb\<in>set nbs. nb_metadata nb = []"
    then show "nb_metadata combined = []"
      using nbs(2) by (simp add: spec_first_metadata_none)
  qed
qed

theorem combine_notebooks_metadata_witness:
  "map_sum id nb_metadata (combine_notebooks book_fs [intro_path, details_path]) =
     Inr (spec_first_metadata [intro_nb, details_nb]) \<and>
   spec_first_metadata [intro_nb, details_nb] = nb_metadata details_nb \<and>
   nb_metadata intro_nb = []"
proof -
  from combine_loop_cells [OF book_extractable(1), of new_notebook] obtain combined where
    c: "combine_notebooks book_fs [intro_path, details_path] = Inr combined"
    by (auto simp: combine_notebooks_def)
  from combine_notebooks_metadata [OF c] obtain nbs where
    nbs: "map book_fs [intro_path, details_path] = map Some nbs"
      "nb_metadata combined = spec_first_metadata nbs"
    by blast
  from nbs(1) have "nbs = [intro_nb, details_nb]"
    by (auto simp: book_fs_simps)
  with nbs(2) show ?thesis
    by (simp add: c spec_first_metadata_def intro_nb_def details_nb_def)
qed

text \<open>
  C4. The heading detection on a first unit whose source is empty: there is no line 1, and
  the detection leaves with \<open>IndexError\<close>, not with \<open>NoHeader\<close>; the combiner passes
  the \<open>IndexError\<close> on without the name of the file. For a source with at least one line
  the detection is as the claim says (\<open>header_lines_Inr\<close>, \<open>header_lines_Inl\<close>).
\<close>

theorem header_detection_empty_first_unit:
  "source (hd (cells blank_nb)) = [] \<and>
   header_lines (splitlines (source (hd (cells blank_nb)))) = Inl IndexError \<and>
   combine_notebooks book_fs [blank_path] = Inl IndexError"
  by (simp add: combine_notebooks_def book_fs_simps blank_nb_def eval_defs)

text \<open>
  C5. When the extraction succeeds, the heading lines are line 1 alone when line 1 starts
  with \<open>#\<close> and a blank, and lines 1 and 2 otherwise, line 2 then starting with
  \<open>===\<close>. The first unit produced is a markdown unit whose lines are exactly these
  heading lines and whose metadata is that of the original first unit; a third unit is
  produced exactly when some line after the heading lines has a character that is not
  white space, and it is a markdown unit with empty metadata holding those lines, joined
  and stripped.
\<close>

theorem add_sec_label_units:
  assumes "add_sec_label c nbname = Inr res"
  shows "\<exists>l0 ls heading rest.
           splitlines (source c) = l0 # ls \<and>
           (if startswith l0 (py ''# '') then heading = [l0] \<and> rest = ls
            else ls \<noteq> [] \<and> startswith (hd ls) (py ''==='') \<and>
                 heading = [l0, hd ls] \<and> rest = tl ls) \<and>
           (length res = 2 \<or> length res = 3) \<and>
           cell_type (res ! 0) = py ''markdown'' \<and>
           source (res ! 0) = join (py ''\<newline>'') heading \<and>
           splitlines (source (res ! 0)) = heading \<and>
           metadata (res ! 0) = metadata c \<and>
           (length res = 3 \<longleftrightarrow> (\<exists>l\<in>set rest. \<exists>ch\<in>set l. \<not> is_space ch)) \<and>
           (length res = 3 \<longrightarrow>
              cell_type (res ! 2) = py ''markdown'' \<and> metadata (res ! 2) = [] \<and>
              source (res ! 2) = strip (join (py ''\<newline>'') rest))"
proof -
  let ?lines = "splitlines (source c)"
  from assms obtain n where n: "header_lines ?lines = Inr n"
    and res: "res = (new_markdown_cell (join [10] (take n ?lines)))\<lparr>metadata := metadata c\<rparr>
              # new_latex_cell (92 # py ''label{sec:'' @ nbname @ py ''}'')
              # (if strip (join [10] (drop n ?lines)) \<noteq> []
                 then [new_markdown_cell (strip (join [10] (drop n ?lines)))]
                 else [])"
    unfolding add_sec_label_Inr by blast
  have clean: "\<forall>l\<in>set (take n ?lines). \<forall>ch\<in>set l. \<not> is_linebreak ch"
    using splitlines_no_linebreak [of _ "source c"] by (blast dest: in_set_takeD)
  from n obtain l0 ls where ls: "?lines = l0 # ls"
    and hd: "if startswith l0 (py ''# '') then n = 1
             else ls \<noteq> [] \<and> startswith (hd ls) (py ''==='') \<and> n = 2"
    unfolding header_lines_Inr by blast
  have forms: "if startswith l0 (py ''# '') then take n ?lines = [l0] \<and> drop n ?lines = ls
      else ls \<noteq> [] \<and> startswith (hd ls) (py ''==='') \<and>
           take n ?lines = [l0, hd ls] \<and> drop n ?lines = tl ls"
  proof (cases "startswith l0 (py ''# '')")
    case True
    with hd have "n = 1" by simp
    with True show ?thesis by (simp add: ls)
  next
    case False
    with hd obtain l1 ls' where r: "ls = l1 # ls'" "startswith l1 (py ''==='')" "n = 2"
      by (cases ls) auto
    with False show ?thesis by (simp add: ls numeral_2_eq_2)
  qed
  have "take n ?lines \<noteq> [] \<and> last (take n ?lines) \<noteq> []"
  proof (cases "startswith l0 (py ''# '')")
    case True
    then have "l0 \<noteq> []" by (rule startswith_nonempty) simp
    with True forms show ?thesis by simp
  next
    case False
    with forms have "startswith (hd ls) (py ''==='')" by simp
    then have "hd ls \<noteq> []" by (rule startswith_nonempty) simp
    with False forms show ?thesis by simp
  qed
  with clean have heading: "splitlines (join [10] (take n ?lines)) = take n ?lines"
    by (simp add: splitlines_join)
  show ?thesis
  proof (intro exI conjI)
    show "?lines = l0 # ls" by (rule ls)
    show "if startswith l0 (py ''# '') then take n ?lines = [l0] \<and> drop n ?lines = ls
      else ls \<noteq> [] \<and> startswith (hd ls) (py ''==='') \<and>
           take n ?lines = [l0, hd ls] \<and> drop n ?lines = tl ls"
      by (rule forms)
    show "length res = 2 \<or> length res = 3" by (simp add: res)
    show "cell_type (res ! 0) = py ''markdown''" by (simp add: res new_markdown_cell_def)
    show "source (res ! 0) = join (py ''\<newline>'') (take n ?lines)"
      by (simp add: res new_markdown_cell_def)
    show "splitlines (source (res ! 0)) = take n ?lines"
      by (simp add: res new_markdown_cell_def heading)
    show "metadata (res ! 0) = metadata c" by (simp add: res)
    show "length res = 3 \<longleftrightarrow> (\<exists>l\<in>set (drop n ?lines). \<exists>ch\<in>set l. \<not> is_space ch)"
      unfolding strip_join_nonblank [symmetric] by (simp add: res)
    show "length res = 3 \<longrightarrow>
              cell_type (res ! 2) = py ''markdown'' \<and> metadata (res ! 2) = [] \<and>
              source (res ! 2) = strip (join (py ''\<newline>'') (drop n ?lines))"
      by (simp add: res new_markdown_cell_def)
  qed
qed

theorem add_sec_label_units_witness:
  "add_sec_label (hd (cells intro_nb)) (py ''01-intro'') =
     Inr [(new_markdown_cell (py ''# Introduction''))
             \<lparr>metadata := [(py ''tags'', JList [JStr (py ''title'')])]\<rparr>,
          new_latex_cell (92 # py ''label{sec:01-intro}''),
          new_markdown_cell (py ''See the details.'')] \<and>
   splitlines (source (hd (cells intro_nb))) =
     [py ''# Introduction'', [], py ''See the details.''] \<and>
   add_sec_label (hd (cells details_nb)) (py ''02-details'') =
     Inr [new_markdown_cell (py ''Details\<newline>=======''),
          new_latex_cell (92 # py ''label{sec:02-details}'')] \<and>
   splitlines (source (hd (cells details_nb))) = [py ''Details'', py ''=======''] \<and>
   splitlines (py ''Details\<newline>======='') = [py ''Details'', py ''=======''] \<and>
   add_sec_label (new_markdown_cell (py ''Title\<newline>===\<newline>Text'')) (py ''t'') =
     Inr [new_markdown_cell (py ''Title\<newline>===''),
          new_latex_cell (92 # py ''label{sec:t}''),
          new_markdown_cell (py ''Text'')] \<and>
   splitlines (py ''Title\<newline>===\<newline>Text'') = [py ''Title'', py ''==='', py ''Text'']"
proof -
  have setext: "add_sec_label (new_markdown_cell (py ''Title\<newline>===\<newline>Text'')) (py ''t'') =
     Inr [new_markdown_cell (py ''Title\<newline>===''),
          new_latex_cell (92 # py ''label{sec:t}''),
          new_markdown_cell (py ''Text'')]"
    by (simp add: eval_defs)
  have lines: "splitlines (source (hd (cells intro_nb))) =
       [py ''# Introduction'', [], py ''See the details.'']"
    "splitlines (source (hd (cells details_nb))) = [py ''Details'', py ''=======''] "
    "splitlines (py ''Details\<newline>======='') = [py ''Details'', py ''=======''] "
    "splitlines (py ''Title\<newline>===\<newline>Text'') = [py ''Title'', py ''==='', py ''Text'']"
    by (simp_all add: intro_nb_def details_nb_def eval_defs)
  show ?thesis
    using add_sec_label_units [OF intro_units] add_sec_label_units [OF details_units]
      add_sec_label_units [OF setext]
    by (simp only: intro_units details_units setext lines simp_thms)
qed

text \<open>
  C6. A chapter whose first unit is empty has neither heading form, and the claim asks for
  a \<open>NoHeader\<close> error that names its file. The run leaves with \<open>IndexError\<close>
  instead, which carries no file name: alone in the list, and between two chapters that
  have headings. (For a first unit with at least one line the run does name the file:
  \<open>combine_notebooks_no_header\<close>.)
\<close>

theorem combine_notebooks_blank_chapter:
  "book_fs blank_path = Some blank_nb \<and>
   splitlines (source (hd (cells blank_nb))) = [] \<and>
   path_str blank_path = py ''book/05-blank.ipynb'' \<and>
   combine_notebooks book_fs [blank_path] = Inl IndexError \<and>
   combine_notebooks book_fs [intro_path, blank_path, details_path] = Inl IndexError"
proof -
  have "path_str blank_path = py ''book/05-blank.ipynb''"
    by (simp add: path_str_def is_root_def blank_path_def)
  moreover have "combine_notebooks book_fs [blank_path] = Inl IndexError"
    by (simp add: combine_notebooks_def book_fs_simps blank_nb_def eval_defs)
  moreover have "combine_notebooks book_fs [intro_path, blank_path, details_path] =
      Inl IndexError"
    by (simp add: combine_notebooks_def book_fs_simps stems intro_nb_def blank_nb_def
        eval_defs)
  ultimately show ?thesis
    by (simp add: book_fs_simps blank_nb_def new_markdown_cell_def)
qed

text \<open>
  C7, as amended. The result of the run does not depend on the order in which the matched
  files are listed. When it succeeds, the chapters of the combined document are exactly the
  matched files, in the order in which \<open>pathlib\<close> sorts their paths (component by
  component); when the matched files all lie in one directory, this is the lexicographic
  order of their file names.
\<close>

theorem combine_and_convert_order:
  "(\<forall>matched'. mset matched' = mset matched \<longrightarrow>
       combine_and_convert fs matched' output_file pdf template_file =
       combine_and_convert fs matched output_file pdf template_file) \<and>
   (\<forall>req. combine_and_convert fs matched output_file pdf template_file = Inr req \<longrightarrow>
      (\<exists>chapters. cells (exp_notebook req) = concat (map (spec_chapter_units fs) chapters) \<and>
         mset chapters = mset matched \<and> sorted chapters \<and>
         (\<forall>dir names. matched = map (\<lambda>n. dir @ [n]) names \<longrightarrow>
            chapters = map (\<lambda>n. dir @ [n]) (sort names))))"
proof (intro conjI allI impI)
  fix matched' :: "Path list"
  assume "mset matched' = mset matched"
  then have "sort matched' = sort matched" by (rule sort_listing_order)
  then show "combine_and_convert fs matched' output_file pdf template_file =
       combine_and_convert fs matched output_file pdf template_file"
    by (simp add: combine_and_convert_def)
next
  fix req
  assume req: "combine_and_convert fs matched output_file pdf template_file = Inr req"
  then obtain combined where c: "combine_notebooks fs (sort matched) = Inr combined"
    and r: "req = export combined output_file pdf template_file None None None"
    by (auto simp: combine_and_convert_def Let_def split: sum.splits)
  from c have "combine_loop fs (sort matched) new_notebook = Inr combined"
    by (simp add: combine_notebooks_def)
  from combine_loop_cells [OF combine_loop_Inr [OF this], of new_notebook] this
  have "cells combined = concat (map (spec_chapter_units fs) (sort matched))"
    by (simp add: new_notebook_def)
  with r have "cells (exp_notebook req) = concat (map (spec_chapter_units fs) (sort matched))"
    by (simp add: export_def)
  moreover have "\<forall>dir names. matched = map (\<lambda>n. dir @ [n]) names \<longrightarrow>
            sort matched = map (\<lambda>n. dir @ [n]) (sort names)"
    by (simp add: sort_same_dir)
  ultimately show "\<exists>chapters. cells (exp_notebook req) = concat (map (spec_chapter_units fs) chapters) \<and>
         mset chapters = mset matched \<and> sorted chapters \<and>
         (\<forall>dir names. matched = map (\<lambda>n. dir @ [n]) names \<longrightarrow>
            chapters = map (\<lambda>n. dir @ [n]) (sort names))"
    by (intro exI [of _ "sort matched"]) simp
qed

theorem combine_and_convert_order_witness:
  "mset [details_path, intro_path] = mset [intro_path, details_path] \<and>
   combine_and_convert book_fs [details_path, intro_path] [py ''combined''] False None =
   combine_and_convert book_fs [intro_path, details_path] [py ''combined''] False None \<and>
   [intro_path, details_path] =
     map (\<lambda>n. [py ''book''] @ [n]) [py ''01-intro.ipynb'', py ''02-details.ipynb''] \<and>
   map_sum id (map source \<circ> cells \<circ> exp_notebook)
       (combine_and_convert book_fs [details_path, intro_path] [py ''combined''] False None) =
     Inr [py ''# Introduction'', 92 # py ''label{sec:01-intro}'', py ''See the details.'',
          py ''print(1)'', py ''Details\<newline>======='', 92 # py ''label{sec:02-details}'',
          py ''More.'']"
proof -
  have m: "mset [details_path, intro_path] = mset [intro_path, details_path]"
    by simp
  from combine_and_convert_order [of "[intro_path, details_path]" book_fs "[py ''combined'']" False None] m
  have "combine_and_convert book_fs [details_path, intro_path] [py ''combined''] False None =
   combine_and_convert book_fs [intro_path, details_path] [py ''combined''] False None"
    by blast
  moreover have "sort [intro_path, details_path] = [intro_path, details_path]"
    by (simp add: intro_path_def details_path_def)
  then have "map_sum id (map source \<circ> cells \<circ> exp_notebook)
       (combine_and_convert book_fs [intro_path, details_path] [py ''combined''] False None) =
     Inr [py ''# Introduction'', 92 # py ''label{sec:01-intro}'', py ''See the details.'',
          py ''print(1)'', py ''Details\<newline>======='', 92 # py ''label{sec:02-details}'',
          py ''More.'']"
    by (simp add: combine_and_convert_def combine_notebooks_def new_notebook_def book_fs_simps
        stems intro_nb_def details_nb_def export_def code_cell_def eval_defs)
  ultimately show ?thesis
    by (simp add: intro_path_def details_path_def)
qed

theorem combine_and_convert_order_counterexample:
  "path_str one_path = py ''a-b/1.ipynb'' \<and> path_str two_path = py ''a/2.ipynb'' \<and>
   path_str one_path < path_str two_path \<and> path_name one_path < path_name two_path \<and>
   map_sum id (map source \<circ> cells \<circ> exp_notebook)
       (combine_and_convert shelf_fs [one_path, two_path] [py ''combined''] False None) =
     Inr [py ''# Two'', 92 # py ''label{sec:2}'', py ''# One'', 92 # py ''label{sec:1}'']"
proof -
  have "map_sum id (map source \<circ> cells \<circ> exp_notebook)
       (combine_and_convert shelf_fs [one_path, two_path] [py ''combined''] False None) =
     Inr [py ''# Two'', 92 # py ''label{sec:2}'', py ''# One'', 92 # py ''label{sec:1}'']"
    unfolding combine_and_convert_def sort_shelf
    by (simp add: combine_notebooks_def new_notebook_def shelf_fs_simps stems export_def
        eval_defs)
  moreover have "path_str one_path = py ''a-b/1.ipynb''" "path_str two_path = py ''a/2.ipynb''"
    "path_name one_path < path_name two_path"
    by (simp_all add: path_str_def path_name_def is_root_def one_path_def two_path_def)
  ultimately show ?thesis by simp
qed

text \<open>
  C8. With no matched file, combining raises no error and returns the empty combined
  document: no unit and empty metadata; the run goes on to export it.
\<close>

theorem combine_notebooks_no_files:
  "combine_notebooks fs [] = Inr new_notebook \<and>
   cells new_notebook = [] \<and> nb_metadata new_notebook = [] \<and>
   combine_and_convert fs [] output_file pdf template_file =
     Inr (export new_notebook output_file pdf template_file None None None)"
  by (simp add: combine_notebooks_def combine_and_convert_def new_notebook_def)

text \<open>
  C9. The three tag collections that \<open>export\<close> assigns to the configuration of the
  tag-removing preprocessor are, when the caller gives none, \<open>hidden\<close> with
  \<open>remove_cell\<close>, \<open>hidden\<close> with \<open>remove_output\<close>, and \<open>hidden\<close> with
  \<open>remove_input\<close>; a collection that the caller gives is assigned as it is.
\<close>

theorem export_default_tags:
  "set (remove_cell_tags (export combined_nb output_file pdf template_file None outs ins)) =
     {py ''hidden'', py ''remove_cell''} \<and>
   set (remove_all_outputs_tags (export combined_nb output_file pdf template_file cs None ins)) =
     {py ''hidden'', py ''remove_output''} \<and>
   set (remove_input_tags (export combined_nb output_file pdf template_file cs outs None)) =
     {py ''hidden'', py ''remove_input''} \<and>
   remove_cell_tags (export combined_nb output_file pdf template_file (Some ts) outs ins) = ts \<and>
   remove_all_outputs_tags (export combined_nb output_file pdf template_file cs (Some ts) ins) = ts \<and>
   remove_input_tags (export combined_nb output_file pdf template_file cs outs (Some ts)) = ts"
  by (simp add: export_def)

text \<open>
  C10. A first unit with an empty source has no line: the extraction leaves with
  \<open>IndexError\<close> from the read of line 1, not with \<open>NoHeader\<close>; and this is the only
  case in which it leaves with \<open>IndexError\<close>.
\<close>

theorem add_sec_label_empty_source:
  "(source c = [] \<longrightarrow> add_sec_label c nbname = Inl IndexError) \<and>
   (source c \<noteq> [] \<longrightarrow> add_sec_label c nbname \<noteq> Inl IndexError)"
  by (cases "splitlines (source c)") (auto simp: add_sec_label_Inl header_lines_Inl)

theorem add_sec_label_empty_source_witness:
  "source (new_markdown_cell []) = [] \<and>
   add_sec_label (new_markdown_cell []) (py ''05-blank'') = Inl IndexError \<and>
   source (code_cell (py ''x'')) = py ''x'' \<and>
   add_sec_label (code_cell (py ''x'')) (py ''05-blank'') = Inl (NoHeader [])"
  using add_sec_label_empty_source [of "new_markdown_cell []" "py ''05-blank''"]
    add_sec_label_empty_source [of "code_cell (py ''x'')" "py ''05-blank''"]
  by (simp add: code_cell_def eval_defs)

end
